theory Spec2Isabelle
  imports Main "HOL-Library.Word"
begin

section \<open>Message dispatch and task lifecycle of onedotnet/platform\<close>

text \<open>
  A shallow embedding of \<^verbatim>\<open>pkg/middleware/mq/rabbitmq.go\<close> (the RabbitMQ service),
  of the task entity of \<^verbatim>\<open>internal/model\<close> and of the task methods of
  \<^verbatim>\<open>internal/service/repository_impl.go\<close>.

  Go's \<^verbatim>\<open>error\<close> is a \<open>string option\<close>: \<open>None\<close> is \<^verbatim>\<open>nil\<close>, \<open>Some m\<close> an error whose
  \<^verbatim>\<open>Error()\<close> text is \<open>m\<close>. Everything outside the process (the broker, the SQL
  database, the random source, the clock) is a field of the record \<open>world\<close>; a function
  of the program takes the world and returns the new one. What the outside may answer is
  scripted in the world (\<open>db_faults\<close>, \<open>amqp_faults\<close>), so a statement proved for every
  world holds for every behaviour of the broker and of the database.
\<close>

subsection \<open>The task entity and the envelope\<close>

type_synonym MessageStatus = string

definition MessageStatusPending :: MessageStatus where
  "MessageStatusPending = ''pending''"

definition MessageStatusDelivered :: MessageStatus where
  "MessageStatusDelivered = ''delivered''"

definition MessageStatusFailed :: MessageStatus where
  "MessageStatusFailed = ''failed''"

definition MessageStatusAcked :: MessageStatus where
  "MessageStatusAcked = ''acknowledged''"

type_synonym UUID = "128 word"

text \<open>
  \<^verbatim>\<open>model.Task\<close>. Of the embedded \<^verbatim>\<open>gorm.Model\<close> only the primary key \<open>ID\<close> is kept
  (0 is Go's zero value, "no primary key yet"); a \<^verbatim>\<open>*time.Time\<close> is a \<open>nat option\<close>.
\<close>

record Task =
  ID :: nat
  UUID :: UUID
  MessageID :: string
  MessageType :: string
  QueueName :: string
  Status :: MessageStatus
  RetryCount :: int
  NextRetryTime :: "nat option"
  Error :: string
  Payload :: string
  Result :: string
  SentBy :: string
  AckedAt :: "nat option"

text \<open>
  The values an \<^verbatim>\<open>interface{}\<close> argument can hold, as far as this package looks at
  them: it only compares with \<^verbatim>\<open>nil\<close> and hands the value to \<^verbatim>\<open>json.Marshal\<close>.
  \<open>GChan\<close> stands for the values \<^verbatim>\<open>encoding/json\<close> refuses (channels, functions).
\<close>

datatype gvalue =
    GNil
  | GBool bool
  | GInt int
  | GString string
  | GTime nat
  | GChan
  | GStruct "(string \<times> gvalue) list"

record BaseMessage =
  bm_MessageID :: string
  bm_MessageType :: string
  bm_MessageCreatedAt :: nat
  bm_SentBy :: string
  bm_MessageBody :: gvalue
  bm_MessageAck :: bool

text \<open>The struct as \<^verbatim>\<open>json.Marshal\<close> sees it: the fields in order, under their JSON tags.\<close>

definition BaseMessage_fields :: "BaseMessage \<Rightarrow> gvalue" where
  "BaseMessage_fields m = GStruct
     [(''message_id'', GString (bm_MessageID m)),
      (''message_type'', GString (bm_MessageType m)),
      (''message_created_time'', GTime (bm_MessageCreatedAt m)),
      (''sentby'', GString (bm_SentBy m)),
      (''message_body'', bm_MessageBody m),
      (''message_ack'', GBool (bm_MessageAck m))]"

subsection \<open>The outside world\<close>

record Publishing =
  ContentType :: string
  DeliveryMode :: "8 word"
  MessageId :: string
  Timestamp :: nat
  Body :: string

text \<open>
  Every call that leaves the process is recorded, in order, with its outcome: the calls
  on the broker, the calls on the repository, and the log lines.
\<close>

datatype event =
    AmqpDial string "string option"
  | AmqpChannel "string option"
  | AmqpExchangeDeclare string string "string option"
  | AmqpQueueDeclare string "string option"
  | AmqpQueueBind string string string "string option"
  | AmqpPublish string string Publishing "string option"
  | RepoCreateTask Task "string option"
  | RepoGetTaskByMessageID string
  | RepoUpdateTask Task "string option"
  | LogError string string
  | LogInfo string

record world =
  tasks :: "Task list"
  next_id :: nat
  db_faults :: "string option list"
  amqp_faults :: "string option list"
  rand :: "nat \<Rightarrow> UUID"
  rand_pos :: nat
  clock :: nat
  trace :: "event list"

definition emit :: "event \<Rightarrow> world \<Rightarrow> world" where
  "emit e w = w\<lparr>trace := trace w @ [e]\<rparr>"

text \<open>The events a call has added to the trace of the world it started in.\<close>

definition added :: "world \<Rightarrow> world \<Rightarrow> event list" where
  "added w w' = drop (length (trace w)) (trace w')"

definition time_Now :: "world \<Rightarrow> nat" where
  "time_Now w = clock w"

subsubsection \<open>github.com/google/uuid\<close>

definition hexdigit :: "nat \<Rightarrow> char" where
  "hexdigit d = ''0123456789abcdef'' ! (d mod 16)"

definition hex_of :: "nat \<Rightarrow> nat \<Rightarrow> string" where
  "hex_of n v = map (\<lambda>i. hexdigit (v div 16 ^ (n - 1 - i))) [0..<n]"

text \<open>\<^verbatim>\<open>UUID.String()\<close>: the form xxxxxxxx-xxxx-xxxx-xxxx-xxxxxxxxxxxx.\<close>

definition UUID_String :: "UUID \<Rightarrow> string" where
  "UUID_String u =
     (let v = unat u in
      hex_of 8 (v div 16 ^ 24) @ ''-'' @ hex_of 4 (v div 16 ^ 20) @ ''-'' @
      hex_of 4 (v div 16 ^ 16) @ ''-'' @ hex_of 4 (v div 16 ^ 12) @ ''-'' @ hex_of 12 v)"

text \<open>\<^verbatim>\<open>uuid.New()\<close> draws the next value of the random source.\<close>

definition uuid_New :: "world \<Rightarrow> UUID \<times> world" where
  "uuid_New w = (rand w (rand_pos w), w\<lparr>rand_pos := Suc (rand_pos w)\<rparr>)"

subsubsection \<open>The database behind GORM\<close>

text \<open>
  A statement sent to the database either runs or comes back with the driver's error;
  \<open>db_faults\<close> scripts the answers to the statements still to come (\<open>None\<close>: runs; an
  exhausted script: runs).
\<close>

definition db_fault :: "world \<Rightarrow> string option \<times> world" where
  "db_fault w = (case db_faults w of [] \<Rightarrow> (None, w) | f # fs \<Rightarrow> (f, w\<lparr>db_faults := fs\<rparr>))"

text \<open>\<^verbatim>\<open>Task.BeforeCreate\<close>, the hook GORM runs before an insert.\<close>

definition BeforeCreate :: "Task \<Rightarrow> world \<Rightarrow> Task \<times> world" where
  "BeforeCreate t w =
     (if UUID t = 0 then (let (u, w1) = uuid_New w in (t\<lparr>UUID := u\<rparr>, w1)) else (t, w))"

text \<open>
  \<^verbatim>\<open>db.Create(task)\<close>: runs the hook, inserts the row and writes the generated primary
  key back into the task. A row whose primary key is taken is refused.
\<close>

definition db_Create :: "Task \<Rightarrow> world \<Rightarrow> (string option \<times> Task) \<times> world" where
  "db_Create t w =
     (let (t1, w1) = BeforeCreate t w;
          (f, w2) = db_fault w1
      in case f of
           Some e \<Rightarrow> ((Some e, t1), w2)
         | None \<Rightarrow>
             if ID t1 = 0 then
               (let t2 = t1\<lparr>ID := next_id w2\<rparr>
                in ((None, t2), w2\<lparr>tasks := tasks w2 @ [t2], next_id := Suc (next_id w2)\<rparr>))
             else if ID t1 \<in> ID ` set (tasks w2) then
               ((Some ''duplicate key value violates unique constraint'', t1), w2)
             else
               ((None, t1), w2\<lparr>tasks := tasks w2 @ [t1],
                               next_id := max (next_id w2) (Suc (ID t1))\<rparr>))"

text \<open>
  \<^verbatim>\<open>db.Save(task)\<close>: without a primary key it is \<^verbatim>\<open>Create\<close>; with one it rewrites every
  column of the row with that key, and inserts the row when there is none.
\<close>

definition db_Save :: "Task \<Rightarrow> world \<Rightarrow> (string option \<times> Task) \<times> world" where
  "db_Save t w =
     (if ID t = 0 then db_Create t w
      else
        (let (f, w1) = db_fault w
         in case f of
              Some e \<Rightarrow> ((Some e, t), w1)
            | None \<Rightarrow>
                if ID t \<in> ID ` set (tasks w1) then
                  ((None, t), w1\<lparr>tasks := map (\<lambda>r. if ID r = ID t then t else r) (tasks w1)\<rparr>)
                else
                  ((None, t), w1\<lparr>tasks := tasks w1 @ [t],
                                  next_id := max (next_id w1) (Suc (ID t))\<rparr>)))"

datatype db_error = ErrRecordNotFound | DriverError string

text \<open>
  \<^verbatim>\<open>db.Where("message_id = ?", messageID).First(task)\<close>: of the rows that match, the
  one with the least primary key.
\<close>

definition db_First_message_id :: "string \<Rightarrow> world \<Rightarrow> (db_error + Task) \<times> world" where
  "db_First_message_id messageID w =
     (let (f, w1) = db_fault w
      in case f of
           Some e \<Rightarrow> (Inl (DriverError e), w1)
         | None \<Rightarrow>
             (case filter (\<lambda>r. MessageID r = messageID) (tasks w1) of
                [] \<Rightarrow> (Inl ErrRecordNotFound, w1)
              | r # rs \<Rightarrow> (Inr (arg_min_list ID (r # rs)), w1)))"

subsubsection \<open>The task methods of GormRepository\<close>

definition CreateTask :: "Task \<Rightarrow> world \<Rightarrow> (string option \<times> Task) \<times> world" where
  "CreateTask task w =
     (let ((err, task1), w1) = db_Create task w;
          err1 = (case err of Some e \<Rightarrow> Some (''database error: '' @ e) | None \<Rightarrow> None)
      in ((err1, task1), emit (RepoCreateTask task1 err1) w1))"

definition GetTaskByMessageID :: "string \<Rightarrow> world \<Rightarrow> (string + Task) \<times> world" where
  "GetTaskByMessageID messageID w =
     (let (r, w1) = db_First_message_id messageID (emit (RepoGetTaskByMessageID messageID) w)
      in case r of
           Inl ErrRecordNotFound \<Rightarrow> (Inl (''task not found with message ID: '' @ messageID), w1)
         | Inl (DriverError e) \<Rightarrow> (Inl (''database error: '' @ e), w1)
         | Inr task \<Rightarrow> (Inr task, w1))"

definition UpdateTask :: "Task \<Rightarrow> world \<Rightarrow> (string option \<times> Task) \<times> world" where
  "UpdateTask task w =
     (let ((err, task1), w1) = db_Save task w;
          err1 = (case err of Some e \<Rightarrow> Some (''database error: '' @ e) | None \<Rightarrow> None)
      in ((err1, task1), emit (RepoUpdateTask task1 err1) w1))"

subsubsection \<open>The broker\<close>

text \<open>
  A call on the AMQP client either succeeds or returns the client's error;
  \<open>amqp_faults\<close> scripts the answers to the calls still to come.
\<close>

definition amqp_call :: "(string option \<Rightarrow> event) \<Rightarrow> world \<Rightarrow> string option \<times> world" where
  "amqp_call ev w =
     (case amqp_faults w of
        [] \<Rightarrow> (None, emit (ev None) w)
      | f # fs \<Rightarrow> (f, emit (ev f) (w\<lparr>amqp_faults := fs\<rparr>)))"

subsection \<open>The RabbitMQ service\<close>

record RabbitMQConfig =
  Host :: string
  Port :: int
  Username :: string
  Password :: string
  VHost :: string

text \<open>
  \<^verbatim>\<open>*amqp.Connection\<close> and \<^verbatim>\<open>*amqp.Channel\<close>: of a connection the service only asks
  \<^verbatim>\<open>IsClosed()\<close>; a nil pointer is \<open>None\<close>.
\<close>

record Connection =
  IsClosed :: bool

datatype Channel = Channel

text \<open>
  \<^verbatim>\<open>RabbitMQService\<close>. The field \<^verbatim>\<open>repo\<close> is the repository of the world; \<open>mu\<close> says
  whether the \<^verbatim>\<open>sync.Mutex\<close> is held.
\<close>

record RabbitMQService =
  conn :: "Connection option"
  channel :: "Channel option"
  config :: RabbitMQConfig
  queueName :: string
  nodeName :: string
  nodeUUID :: string
  exchangeName :: string
  mu :: bool

text \<open>
  How a call ends: it returns, it blocks for ever (\<^verbatim>\<open>Lock\<close> on a mutex that nobody
  will release), or it panics.
\<close>

datatype 'a exec = Returned 'a | Blocked | Panicked string

text \<open>
  \<^verbatim>\<open>s.mu.Lock(); defer s.mu.Unlock()\<close> around a function body. \<^verbatim>\<open>sync.Mutex\<close> is not
  reentrant: \<^verbatim>\<open>Lock\<close> on a held mutex waits, also when the caller itself holds it. The
  deferred \<^verbatim>\<open>Unlock\<close> runs when the body returns or panics.
\<close>

definition with_mu ::
  "(RabbitMQService \<Rightarrow> world \<Rightarrow> 'a exec \<times> RabbitMQService \<times> world) \<Rightarrow>
   RabbitMQService \<Rightarrow> world \<Rightarrow> 'a exec \<times> RabbitMQService \<times> world" where
  "with_mu body s w =
     (if mu s then (Blocked, s, w)
      else
        (case body (s\<lparr>mu := True\<rparr>) w of
           (Blocked, s1, w1) \<Rightarrow> (Blocked, s1, w1)
         | (r, s1, w1) \<Rightarrow>
             if mu s1 then (r, s1\<lparr>mu := False\<rparr>, w1)
             else (Panicked ''fatal error: sync: unlock of unlocked mutex'', s1, w1)))"

fun digits10 :: "nat \<Rightarrow> string" where
  "digits10 n = (if n < 10 then [hexdigit n] else digits10 (n div 10) @ [hexdigit (n mod 10)])"

declare digits10.simps [simp del]

text \<open>The verb \<^verbatim>\<open>%d\<close> of \<^verbatim>\<open>fmt\<close>.\<close>

definition fmt_d :: "int \<Rightarrow> string" where
  "fmt_d i = (if i < 0 then ''-'' @ digits10 (nat (- i)) else digits10 (nat i))"

definition Connect_body :: "RabbitMQService \<Rightarrow> world \<Rightarrow> string option exec \<times> RabbitMQService \<times> world" where
  "Connect_body s w =
     (let connStr = ''amqp://'' @ Username (config s) @ '':'' @ Password (config s) @ ''@'' @
                    Host (config s) @ '':'' @ fmt_d (Port (config s)) @ ''/'' @ VHost (config s);
          (err, w1) = amqp_call (AmqpDial connStr) w;
          s1 = s\<lparr>conn := (case err of None \<Rightarrow> Some \<lparr>IsClosed = False\<rparr> | Some e \<Rightarrow> None)\<rparr>
      in case err of
           Some e \<Rightarrow> (Returned (Some (''failed to connect to RabbitMQ: '' @ e)), s1, w1)
         | None \<Rightarrow>
      (let (err, w2) = amqp_call AmqpChannel w1;
           s2 = s1\<lparr>channel := (case err of None \<Rightarrow> Some Channel | Some e \<Rightarrow> None)\<rparr>
       in case err of
            Some e \<Rightarrow> (Returned (Some (''failed to open a channel: '' @ e)), s2, w2)
          | None \<Rightarrow>
      (let (err, w3) = amqp_call (AmqpExchangeDeclare (exchangeName s2) ''direct'') w2
       in case err of
            Some e \<Rightarrow> (Returned (Some (''failed to declare an exchange: '' @ e)), s2, w3)
          | None \<Rightarrow>
      (let (err, w4) = amqp_call (AmqpQueueDeclare (queueName s2)) w3
       in case err of
            Some e \<Rightarrow> (Returned (Some (''failed to declare a queue: '' @ e)), s2, w4)
          | None \<Rightarrow>
      (let (err, w5) = amqp_call (AmqpQueueBind (queueName s2) (queueName s2) (exchangeName s2)) w4
       in case err of
            Some e \<Rightarrow> (Returned (Some (''failed to bind a queue: '' @ e)), s2, w5)
          | None \<Rightarrow>
              (Returned None, s2, emit (LogInfo ''Connected to RabbitMQ'') w5))))))"

definition Connect :: "RabbitMQService \<Rightarrow> world \<Rightarrow> string option exec \<times> RabbitMQService \<times> world" where
  "Connect = with_mu Connect_body"

definition GetQueueName :: "RabbitMQService \<Rightarrow> string" where
  "GetQueueName s = queueName s"

text \<open>\<^verbatim>\<open>amqp.Persistent\<close>.\<close>

definition Persistent :: "8 word" where
  "Persistent = 2"

text \<open>
  The method \<^verbatim>\<open>(*RabbitMQService).SendMessage\<close>, in two parts. \<open>SendMessage_publish\<close> is
  its second half, from the comment "Publishing context with timeout" to the end: the
  publish and the update of the task that the first half has created. A call of a method
  of the nil channel pointer panics. The five seconds of the publishing context show only
  in the error the publish may return.
\<close>

definition SendMessage_publish ::
  "RabbitMQService \<Rightarrow> world \<Rightarrow> Task \<Rightarrow> string \<Rightarrow> string \<Rightarrow>
   (string \<times> string option) exec \<times> RabbitMQService \<times> world" where
  "SendMessage_publish s w task messageID msgBytes =
     (case channel s of
        None \<Rightarrow>
          (Panicked ''runtime error: invalid memory address or nil pointer dereference'', s, w)
      | Some ch \<Rightarrow>
      (let (err, w1) = amqp_call
             (AmqpPublish (exchangeName s) (queueName s)
                \<lparr>ContentType = ''application/json'',
                 DeliveryMode = Persistent,
                 MessageId = messageID,
                 Timestamp = time_Now w,
                 Body = msgBytes\<rparr>) w
       in case err of
            Some e \<Rightarrow>
              (let task1 = task\<lparr>Status := MessageStatusFailed, Error := e\<rparr>;
                   ((updateErr, task2), w2) = UpdateTask task1 w1;
                   w3 = (case updateErr of
                           Some ue \<Rightarrow> emit (LogError ''Failed to update task status'' ue) w2
                         | None \<Rightarrow> w2)
               in (Returned ('''', Some (''failed to publish message: '' @ e)), s, w3))
          | None \<Rightarrow>
              (let task1 = task\<lparr>Status := MessageStatusDelivered\<rparr>;
                   ((err, task2), w2) = UpdateTask task1 w1;
                   w3 = (case err of
                           Some ue \<Rightarrow>
                             emit (LogError ''Failed to update task status to delivered'' ue) w2
                         | None \<Rightarrow> w2)
               in (Returned (messageID, None), s,
                   emit (LogInfo ''Message sent successfully'') w3))))"

text \<open>
  The first half, between \<^verbatim>\<open>Lock\<close> and the deferred \<^verbatim>\<open>Unlock\<close>: the check of the
  connection, the envelope and the pending task. \<open>json_Marshal\<close> is \<^verbatim>\<open>encoding/json\<close>'s:
  \<open>Inl\<close> its error, \<open>Inr\<close> the bytes.
\<close>

definition SendMessage_body ::
  "(gvalue \<Rightarrow> string + string) \<Rightarrow> string \<Rightarrow> gvalue \<Rightarrow> bool \<Rightarrow>
   RabbitMQService \<Rightarrow> world \<Rightarrow> (string \<times> string option) exec \<times> RabbitMQService \<times> world" where
  "SendMessage_body json_Marshal messageType body needsAck s w =
     (case (if (case conn s of None \<Rightarrow> True | Some c \<Rightarrow> IsClosed c) then Connect s w
            else (Returned None, s, w)) of
        (Blocked, s1, w1) \<Rightarrow> (Blocked, s1, w1)
      | (Panicked p, s1, w1) \<Rightarrow> (Panicked p, s1, w1)
      | (Returned (Some e), s1, w1) \<Rightarrow>
          (Returned ('''', Some (''failed to reconnect to RabbitMQ: '' @ e)), s1, w1)
      | (Returned None, s1, w1) \<Rightarrow>
      (let (u, w2) = uuid_New w1;
           messageID = UUID_String u;
           baseMsg = \<lparr>bm_MessageID = messageID,
                      bm_MessageType = messageType,
                      bm_MessageCreatedAt = time_Now w2,
                      bm_SentBy = nodeName s1 @ ''-'' @ nodeUUID s1,
                      bm_MessageBody = body,
                      bm_MessageAck = needsAck\<rparr>
       in case json_Marshal (BaseMessage_fields baseMsg) of
            Inl e \<Rightarrow> (Returned ('''', Some (''failed to marshal message: '' @ e)), s1, w2)
          | Inr msgBytes \<Rightarrow>
      (let task = \<lparr>ID = 0, UUID = 0,
                   MessageID = messageID,
                   MessageType = messageType,
                   QueueName = queueName s1,
                   Status = MessageStatusPending,
                   RetryCount = 0, NextRetryTime = None, Error = '''',
                   Payload = msgBytes,
                   Result = '''',
                   SentBy = bm_SentBy baseMsg,
                   AckedAt = None\<rparr>;
           ((err, task1), w3) = CreateTask task w2
       in case err of
            Some e \<Rightarrow> (Returned ('''', Some (''failed to create task record: '' @ e)), s1, w3)
          | None \<Rightarrow> SendMessage_publish s1 w3 task1 messageID msgBytes)))"

definition RabbitMQService_SendMessage ::
  "(gvalue \<Rightarrow> string + string) \<Rightarrow> RabbitMQService \<Rightarrow> world \<Rightarrow> string \<Rightarrow> gvalue \<Rightarrow> bool \<Rightarrow>
   (string \<times> string option) exec \<times> RabbitMQService \<times> world" where
  "RabbitMQService_SendMessage json_Marshal s w messageType body needsAck =
     with_mu (SendMessage_body json_Marshal messageType body needsAck) s w"

text \<open>The method \<^verbatim>\<open>(*RabbitMQService).AckMessage\<close>. It takes no lock.\<close>

definition RabbitMQService_AckMessage ::
  "(gvalue \<Rightarrow> string + string) \<Rightarrow> RabbitMQService \<Rightarrow> world \<Rightarrow> string \<Rightarrow> gvalue \<Rightarrow>
   string option \<times> world" where
  "RabbitMQService_AckMessage json_Marshal s w messageID result =
     (case GetTaskByMessageID messageID w of
        (Inl e, w1) \<Rightarrow> (Some (''failed to find task: '' @ e), w1)
      | (Inr task, w1) \<Rightarrow>
      (case (if result \<noteq> GNil then
               (case json_Marshal result of
                  Inl e \<Rightarrow> Inl e
                | Inr resultBytes \<Rightarrow> Inr (task\<lparr>Result := resultBytes\<rparr>))
             else Inr task) of
         Inl e \<Rightarrow> (Some (''failed to marshal result: '' @ e), w1)
       | Inr task1 \<Rightarrow>
      (let now = time_Now w1;
           task2 = task1\<lparr>Status := MessageStatusAcked, AckedAt := Some now\<rparr>;
           ((err, task3), w2) = UpdateTask task2 w1
       in case err of
            Some e \<Rightarrow> (Some (''failed to update task status: '' @ e), w2)
          | None \<Rightarrow> (None, emit (LogInfo ''Message acknowledged successfully'') w2))))"

subsection \<open>The package-level functions\<close>

text \<open>
  The global \<^verbatim>\<open>mqService\<close> is a \<open>RabbitMQService option\<close>, \<open>None\<close> before
  \<^verbatim>\<open>GetGlobalMQService\<close> has set it.
\<close>

definition SendMessage ::
  "(gvalue \<Rightarrow> string + string) \<Rightarrow> RabbitMQService option \<Rightarrow> world \<Rightarrow> string \<Rightarrow> gvalue \<Rightarrow> bool \<Rightarrow>
   (string \<times> string option) exec \<times> RabbitMQService option \<times> world" where
  "SendMessage json_Marshal mqService w messageType body needsAck =
     (case mqService of
        None \<Rightarrow> (Returned ('''', Some ''RabbitMQ service not initialized''), mqService, w)
      | Some s \<Rightarrow>
          (let (r, s1, w1) = RabbitMQService_SendMessage json_Marshal s w messageType body needsAck
           in (r, Some s1, w1)))"

definition AckMessage ::
  "(gvalue \<Rightarrow> string + string) \<Rightarrow> RabbitMQService option \<Rightarrow> world \<Rightarrow> string \<Rightarrow> gvalue \<Rightarrow>
   string option \<times> world" where
  "AckMessage json_Marshal mqService w messageID result =
     (case mqService of
        None \<Rightarrow> (Some ''RabbitMQ service not initialized'', w)
      | Some s \<Rightarrow> RabbitMQService_AckMessage json_Marshal s w messageID result)"

subsection \<open>Inputs to run the model on\<close>

text \<open>
  An encoder to put in the place of \<open>json_Marshal\<close> when the model is run: it refuses a
  channel, wherever it occurs, and renders everything else.
\<close>

fun test_Marshal :: "gvalue \<Rightarrow> string + string"
  and test_Marshal_fields :: "(string \<times> gvalue) list \<Rightarrow> string + string" where
  "test_Marshal GNil = Inr ''null''"
| "test_Marshal (GBool v) = Inr (if v then ''true'' else ''false'')"
| "test_Marshal (GInt i) = Inr (fmt_d i)"
| "test_Marshal (GString v) = Inr (''\"'' @ v @ ''\"'')"
| "test_Marshal (GTime n) = Inr (''\"'' @ digits10 n @ ''\"'')"
| "test_Marshal GChan = Inl ''json: unsupported type: chan int''"
| "test_Marshal (GStruct fs) =
     (case test_Marshal_fields fs of Inl e \<Rightarrow> Inl e | Inr v \<Rightarrow> Inr (''{'' @ v @ ''}''))"
| "test_Marshal_fields [] = Inr ''''"
| "test_Marshal_fields ((k, v) # fs) =
     (case test_Marshal v of
        Inl e \<Rightarrow> Inl e
      | Inr x \<Rightarrow>
          (case test_Marshal_fields fs of
             Inl e \<Rightarrow> Inl e
           | Inr y \<Rightarrow> Inr (''\"'' @ k @ ''\":'' @ x @ (if fs = [] then '''' else '','') @ y)))"

text \<open>
  The service that \<^verbatim>\<open>TestSendMessage\<close> builds (no connection, no channel), and the same
  service with an open connection and a channel.
\<close>

definition test_service :: RabbitMQService where
  "test_service =
     \<lparr>conn = None, channel = None,
      config = \<lparr>Host = ''localhost'', Port = 5672, Username = ''guest'',
                Password = ''guest'', VHost = ''/''\<rparr>,
      queueName = ''test-queue'', nodeName = ''test-node'', nodeUUID = ''test-uuid'',
      exchangeName = ''test-exchange'', mu = False\<rparr>"

definition live_service :: RabbitMQService where
  "live_service = test_service\<lparr>conn := Some \<lparr>IsClosed = False\<rparr>, channel := Some Channel\<rparr>"

text \<open>The task of \<^verbatim>\<open>TestAckMessage\<close>, stored under the primary key 1.\<close>

definition test_task :: Task where
  "test_task =
     \<lparr>ID = 1, UUID = 7, MessageID = ''test-message-id'', MessageType = ''test'',
      QueueName = ''test-queue'', Status = MessageStatusDelivered, RetryCount = 0,
      NextRetryTime = None, Error = '''', Payload = ''{}'', Result = '''',
      SentBy = ''test-node-test-uuid'', AckedAt = None\<rparr>"

text \<open>An empty table, a broker and a database that answer every call.\<close>

definition test_world :: world where
  "test_world =
     \<lparr>tasks = [], next_id = 1, db_faults = [], amqp_faults = [],
      rand = (\<lambda>n. word_of_nat (Suc n)), rand_pos = 0, clock = 1000, trace = []\<rparr>"

text \<open>The events that are calls on the broker.\<close>

fun is_amqp :: "event \<Rightarrow> bool" where
  "is_amqp (AmqpDial a r) = True"
| "is_amqp (AmqpChannel r) = True"
| "is_amqp (AmqpExchangeDeclare a b r) = True"
| "is_amqp (AmqpQueueDeclare a r) = True"
| "is_amqp (AmqpQueueBind a b c r) = True"
| "is_amqp (AmqpPublish a b p r) = True"
| "is_amqp (RepoCreateTask t r) = False"
| "is_amqp (RepoGetTaskByMessageID m) = False"
| "is_amqp (RepoUpdateTask t r) = False"
| "is_amqp (LogError a b) = False"
| "is_amqp (LogInfo a) = False"

section \<open>How the operations end, case by case\<close>

lemma Connect_held: "mu s \<Longrightarrow> Connect s w = (Blocked, s, w)"
  by (simp add: Connect_def with_mu_def)

lemma added_same [simp]: "added w w = []"
  by (simp add: added_def)

lemma added_append: "trace w' = trace w @ es \<Longrightarrow> added w w' = es"
  by (simp add: added_def)

lemma amqp_call_frame:
  "amqp_call ev w = (r, w1) \<Longrightarrow>
     trace w1 = trace w @ [ev r] \<and> tasks w1 = tasks w \<and> next_id w1 = next_id w \<and>
     db_faults w1 = db_faults w \<and> clock w1 = clock w"
  by (auto simp: amqp_call_def emit_def split: list.splits)

lemma db_Create_frame:
  "db_Create t w = ((err, t1), w1) \<Longrightarrow>
     trace w1 = trace w \<and> amqp_faults w1 = amqp_faults w \<and> clock w1 = clock w \<and>
     Status t1 = Status t \<and> Error t1 = Error t \<and> MessageID t1 = MessageID t \<and>
     Payload t1 = Payload t \<and> Result t1 = Result t \<and> AckedAt t1 = AckedAt t \<and>
     (err = None \<longrightarrow> tasks w1 = tasks w @ [t1]) \<and>
     (err \<noteq> None \<longrightarrow> tasks w1 = tasks w \<and> next_id w1 = next_id w) \<and>
     (ID t = 0 \<longrightarrow> err = None \<longrightarrow> ID t1 = next_id w \<and> next_id w1 = Suc (next_id w))"
  by (auto simp: db_Create_def BeforeCreate_def uuid_New_def db_fault_def Let_def
      split: list.splits option.splits if_splits prod.splits)

lemma CreateTask_frame:
  "CreateTask t w = ((err, t1), w1) \<Longrightarrow>
     trace w1 = trace w @ [RepoCreateTask t1 err] \<and>
     amqp_faults w1 = amqp_faults w \<and> clock w1 = clock w \<and>
     Status t1 = Status t \<and> Error t1 = Error t \<and> MessageID t1 = MessageID t \<and>
     Payload t1 = Payload t \<and> Result t1 = Result t \<and> AckedAt t1 = AckedAt t \<and>
     (err = None \<longrightarrow> tasks w1 = tasks w @ [t1]) \<and>
     (err \<noteq> None \<longrightarrow> tasks w1 = tasks w \<and> next_id w1 = next_id w) \<and>
     (ID t = 0 \<longrightarrow> err = None \<longrightarrow> ID t1 = next_id w \<and> next_id w1 = Suc (next_id w))"
  by (auto simp: CreateTask_def emit_def Let_def split: prod.splits option.splits
      dest!: db_Create_frame)

lemma db_Save_frame:
  "db_Save t w = ((err, t1), w1) \<Longrightarrow>
     trace w1 = trace w \<and> amqp_faults w1 = amqp_faults w \<and> clock w1 = clock w \<and>
     Status t1 = Status t \<and> Error t1 = Error t \<and> MessageID t1 = MessageID t \<and>
     Payload t1 = Payload t \<and> Result t1 = Result t \<and> AckedAt t1 = AckedAt t \<and>
     (err = None \<longrightarrow> t1 \<in> set (tasks w1)) \<and>
     (err \<noteq> None \<longrightarrow> tasks w1 = tasks w \<and> next_id w1 = next_id w) \<and>
     (err = None \<longrightarrow> ID t = 0 \<longrightarrow> tasks w1 = tasks w @ [t1]) \<and>
     (err = None \<longrightarrow> ID t \<noteq> 0 \<longrightarrow> t1 = t \<and>
        tasks w1 = (if ID t \<in> ID ` set (tasks w)
                    then map (\<lambda>r. if ID r = ID t then t else r) (tasks w)
                    else tasks w @ [t]))"
  apply (cases "ID t = 0")
   apply (auto simp: db_Save_def dest!: db_Create_frame)[1]
  apply (auto simp: db_Save_def db_fault_def Let_def split: list.splits option.splits if_splits)
  done

lemma UpdateTask_frame:
  "UpdateTask t w = ((err, t1), w1) \<Longrightarrow>
     trace w1 = trace w @ [RepoUpdateTask t1 err] \<and>
     amqp_faults w1 = amqp_faults w \<and> clock w1 = clock w \<and>
     Status t1 = Status t \<and> Error t1 = Error t \<and> MessageID t1 = MessageID t \<and>
     Payload t1 = Payload t \<and> Result t1 = Result t \<and> AckedAt t1 = AckedAt t \<and>
     (err = None \<longrightarrow> t1 \<in> set (tasks w1)) \<and>
     (err \<noteq> None \<longrightarrow> tasks w1 = tasks w \<and> next_id w1 = next_id w) \<and>
     (err = None \<longrightarrow> ID t = 0 \<longrightarrow> tasks w1 = tasks w @ [t1]) \<and>
     (err = None \<longrightarrow> ID t \<noteq> 0 \<longrightarrow> t1 = t \<and>
        tasks w1 = (if ID t \<in> ID ` set (tasks w)
                    then map (\<lambda>r. if ID r = ID t then t else r) (tasks w)
                    else tasks w @ [t]))"
  apply (simp add: UpdateTask_def emit_def Let_def split: prod.splits)
  apply (elim conjE)
  apply (drule db_Save_frame)
  apply (auto split: option.splits)
  done

lemma mu_restore: "\<not> mu s \<Longrightarrow> s\<lparr>mu := False\<rparr> = s"
  by simp

lemma SendMessage_publish_cases [consumes 1, case_names nil_channel published]:
  assumes "SendMessage_publish s w task mid bytes = (out, s', w')"
  obtains
    (nil_channel) "channel s = None"
      "out = Panicked ''runtime error: invalid memory address or nil pointer dereference''"
      "s' = s" "w' = w"
  | (published) p r t' ue where
      "channel s \<noteq> None"
      "MessageId p = mid" "Body p = bytes"
      "out = (case r of None \<Rightarrow> Returned (mid, None)
              | Some e \<Rightarrow> Returned ('''', Some (''failed to publish message: '' @ e)))"
      "s' = s"
      "trace w' = trace w @ AmqpPublish (exchangeName s) (queueName s) p r # RepoUpdateTask t' ue #
         (case ue of None \<Rightarrow> []
          | Some x \<Rightarrow> [LogError (case r of None \<Rightarrow> ''Failed to update task status to delivered''
                                   | Some e \<Rightarrow> ''Failed to update task status'') x]) @
         (case r of None \<Rightarrow> [LogInfo ''Message sent successfully''] | Some e \<Rightarrow> [])"
      "Status t' = (case r of None \<Rightarrow> MessageStatusDelivered | Some e \<Rightarrow> MessageStatusFailed)"
      "Error t' = (case r of None \<Rightarrow> Error task | Some e \<Rightarrow> e)"
      "MessageID t' = MessageID task" "Payload t' = Payload task"
      "ue \<noteq> None \<Longrightarrow> tasks w' = tasks w"
      "ue = None \<Longrightarrow> t' \<in> set (tasks w')"
      "ue = None \<Longrightarrow> ID task = 0 \<Longrightarrow> tasks w' = tasks w @ [t']"
      "ue = None \<Longrightarrow> ID task \<noteq> 0 \<Longrightarrow> ID t' = ID task \<and>
         tasks w' = (if ID task \<in> ID ` set (tasks w)
                     then map (\<lambda>r. if ID r = ID task then t' else r) (tasks w)
                     else tasks w @ [t'])"
proof (cases "channel s")
  case None
  with assms show ?thesis
    by (intro nil_channel) (simp_all add: SendMessage_publish_def)
next
  case (Some ch)
  define p where "p = \<lparr>ContentType = ''application/json'', DeliveryMode = Persistent,
    MessageId = mid, Timestamp = time_Now w, Body = bytes\<rparr>"
  obtain r w1 where call: "amqp_call (AmqpPublish (exchangeName s) (queueName s) p) w = (r, w1)"
    by (cases "amqp_call (AmqpPublish (exchangeName s) (queueName s) p) w") auto
  note f1 = amqp_call_frame [OF call]
  define task1 where "task1 = (case r of None \<Rightarrow> task\<lparr>Status := MessageStatusDelivered\<rparr>
    | Some e \<Rightarrow> task\<lparr>Status := MessageStatusFailed, Error := e\<rparr>)"
  obtain ue t' w2 where upd: "UpdateTask task1 w1 = ((ue, t'), w2)"
    by (cases "UpdateTask task1 w1") auto
  note f2 = UpdateTask_frame [OF upd]
  have out: "out = (case r of None \<Rightarrow> Returned (mid, None)
              | Some e \<Rightarrow> Returned ('''', Some (''failed to publish message: '' @ e)))"
    and s': "s' = s"
    and w': "w' = (case r of None \<Rightarrow> emit (LogInfo ''Message sent successfully'')
                      (case ue of None \<Rightarrow> w2
                       | Some x \<Rightarrow> emit (LogError ''Failed to update task status to delivered'' x) w2)
                   | Some e \<Rightarrow> (case ue of None \<Rightarrow> w2
                       | Some x \<Rightarrow> emit (LogError ''Failed to update task status'' x) w2))"
    using assms Some call upd
    by (auto simp: SendMessage_publish_def Let_def p_def task1_def split: option.splits)
  have tr: "trace w' = trace w @ (AmqpPublish (exchangeName s) (queueName s) p r # RepoUpdateTask t' ue #
         (case ue of None \<Rightarrow> []
          | Some x \<Rightarrow> [LogError (case r of None \<Rightarrow> ''Failed to update task status to delivered''
                                   | Some e \<Rightarrow> ''Failed to update task status'') x]) @
         (case r of None \<Rightarrow> [LogInfo ''Message sent successfully''] | Some e \<Rightarrow> []))"
    using f1 f2 by (simp add: w' emit_def split: option.splits)
  have tk: "tasks w' = tasks w2"
    by (simp add: w' emit_def split: option.splits)
  have id1: "ID task1 = ID task"
    by (simp add: task1_def split: option.splits)
  show ?thesis
  proof (rule published [of p r t' ue])
    show "channel s \<noteq> None" using Some by simp
    show "MessageId p = mid" "Body p = bytes" by (simp_all add: p_def)
    show "out = (case r of None \<Rightarrow> Returned (mid, None)
              | Some e \<Rightarrow> Returned ('''', Some (''failed to publish message: '' @ e)))" by (rule out)
    show "s' = s" by (rule s')
    show "trace w' = trace w @ AmqpPublish (exchangeName s) (queueName s) p r # RepoUpdateTask t' ue #
         (case ue of None \<Rightarrow> []
          | Some x \<Rightarrow> [LogError (case r of None \<Rightarrow> ''Failed to update task status to delivered''
                                   | Some e \<Rightarrow> ''Failed to update task status'') x]) @
         (case r of None \<Rightarrow> [LogInfo ''Message sent successfully''] | Some e \<Rightarrow> [])"
      by (rule tr)
    show "Status t' = (case r of None \<Rightarrow> MessageStatusDelivered | Some e \<Rightarrow> MessageStatusFailed)"
      using f2 by (simp add: task1_def split: option.splits)
    show "Error t' = (case r of None \<Rightarrow> Error task | Some e \<Rightarrow> e)"
      using f2 by (simp add: task1_def split: option.splits)
    show "MessageID t' = MessageID task" "Payload t' = Payload task"
      using f2 by (simp_all add: task1_def split: option.splits)
    show "ue \<noteq> None \<Longrightarrow> tasks w' = tasks w" using f1 f2 tk by simp
    show "ue = None \<Longrightarrow> t' \<in> set (tasks w')" using f2 tk by simp
    show "ue = None \<Longrightarrow> ID task = 0 \<Longrightarrow> tasks w' = tasks w @ [t']"
      using f1 f2 tk id1 by simp
    show "ue = None \<Longrightarrow> ID task \<noteq> 0 \<Longrightarrow> ID t' = ID task \<and>
         tasks w' = (if ID task \<in> ID ` set (tasks w)
                     then map (\<lambda>r. if ID r = ID task then t' else r) (tasks w)
                     else tasks w @ [t'])"
      using f1 f2 tk id1 by simp
  qed
qed

lemma UUID_String_nonempty: "UUID_String u \<noteq> ''''"
  by (simp add: UUID_String_def Let_def)

lemma SendMessage_cases [consumes 1, case_names held reconnect marshal create nil_channel published]:
  assumes "RabbitMQService_SendMessage M s w mt b a = (out, s', w')"
  obtains
    (held) "mu s" "out = Blocked" "s' = s" "w' = w"
  | (reconnect) "\<not> mu s" "case conn s of None \<Rightarrow> True | Some c \<Rightarrow> IsClosed c"
      "out = Blocked" "s' = s\<lparr>mu := True\<rparr>" "w' = w"
  | (marshal) m e where
      "\<not> mu s" "\<not> (case conn s of None \<Rightarrow> True | Some c \<Rightarrow> IsClosed c)"
      "bm_MessageBody m = b" "M (BaseMessage_fields m) = Inl e"
      "out = Returned ('''', Some (''failed to marshal message: '' @ e))" "s' = s"
      "added w w' = []" "tasks w' = tasks w"
  | (create) m bytes t e where
      "\<not> mu s" "\<not> (case conn s of None \<Rightarrow> True | Some c \<Rightarrow> IsClosed c)"
      "bm_MessageBody m = b" "M (BaseMessage_fields m) = Inr bytes"
      "out = Returned ('''', Some (''failed to create task record: '' @ e))" "s' = s"
      "added w w' = [RepoCreateTask t (Some e)]" "tasks w' = tasks w"
  | (nil_channel) m bytes t where
      "\<not> mu s" "\<not> (case conn s of None \<Rightarrow> True | Some c \<Rightarrow> IsClosed c)"
      "bm_MessageBody m = b" "M (BaseMessage_fields m) = Inr bytes" "channel s = None"
      "out = Panicked ''runtime error: invalid memory address or nil pointer dereference''"
      "s' = s"
      "added w w' = [RepoCreateTask t None]" "tasks w' = tasks w @ [t]"
      "Status t = MessageStatusPending" "Payload t = bytes" "MessageID t = bm_MessageID m"
  | (published) m bytes t p r t' ue where
      "\<not> mu s" "\<not> (case conn s of None \<Rightarrow> True | Some c \<Rightarrow> IsClosed c)"
      "bm_MessageBody m = b" "M (BaseMessage_fields m) = Inr bytes" "channel s \<noteq> None"
      "Status t = MessageStatusPending" "Payload t = bytes" "MessageID t = bm_MessageID m"
      "Error t = ''''" "ID t = next_id w" "bm_MessageID m \<noteq> ''''"
      "MessageId p = bm_MessageID m" "Body p = bytes"
      "out = (case r of None \<Rightarrow> Returned (bm_MessageID m, None)
              | Some e \<Rightarrow> Returned ('''', Some (''failed to publish message: '' @ e)))"
      "s' = s"
      "added w w' = RepoCreateTask t None # AmqpPublish (exchangeName s) (queueName s) p r #
         RepoUpdateTask t' ue #
         (case ue of None \<Rightarrow> []
          | Some x \<Rightarrow> [LogError (case r of None \<Rightarrow> ''Failed to update task status to delivered''
                                   | Some e \<Rightarrow> ''Failed to update task status'') x]) @
         (case r of None \<Rightarrow> [LogInfo ''Message sent successfully''] | Some e \<Rightarrow> [])"
      "Status t' = (case r of None \<Rightarrow> MessageStatusDelivered | Some e \<Rightarrow> MessageStatusFailed)"
      "Error t' = (case r of None \<Rightarrow> '''' | Some e \<Rightarrow> e)"
      "MessageID t' = bm_MessageID m" "Payload t' = bytes"
      "ue \<noteq> None \<Longrightarrow> tasks w' = tasks w @ [t]"
      "ue = None \<Longrightarrow> t' \<in> set (tasks w')"
      "ue = None \<Longrightarrow> next_id w = 0 \<Longrightarrow> tasks w' = tasks w @ [t, t']"
      "ue = None \<Longrightarrow> next_id w \<noteq> 0 \<Longrightarrow>
         tasks w' = map (\<lambda>r. if ID r = next_id w then t' else r) (tasks w) @ [t']"
proof (cases "mu s")
  case True
  with assms show ?thesis
    by (intro held) (simp_all add: RabbitMQService_SendMessage_def with_mu_def)
next
  case free: False
  define s0 where "s0 = s\<lparr>mu := True\<rparr>"
  have s0: "mu s0" "conn s0 = conn s" "channel s0 = channel s" "nodeName s0 = nodeName s"
    "nodeUUID s0 = nodeUUID s" "queueName s0 = queueName s" "exchangeName s0 = exchangeName s"
    "s0\<lparr>mu := False\<rparr> = s"
    using free by (simp_all add: s0_def)
  obtain out0 s1 w1 where body: "SendMessage_body M mt b a s0 w = (out0, s1, w1)"
    by (cases "SendMessage_body M mt b a s0 w") auto
  have unlock: "out0 \<noteq> Blocked \<Longrightarrow> s1 = s0 \<Longrightarrow> out = out0 \<and> s' = s \<and> w' = w1"
    using assms free body s0
    by (cases out0) (simp_all add: RabbitMQService_SendMessage_def with_mu_def s0_def [symmetric])
  show ?thesis
  proof (cases "case conn s of None \<Rightarrow> True | Some c \<Rightarrow> IsClosed c")
    case dead: True
    have "SendMessage_body M mt b a s0 w = (Blocked, s0, w)"
      using dead s0 by (simp add: SendMessage_body_def Connect_held)
    with assms free show ?thesis
      by (intro reconnect)
        (simp_all add: dead RabbitMQService_SendMessage_def with_mu_def s0_def [symmetric])
  next
    case live: False
    define w2 where "w2 = w\<lparr>rand_pos := Suc (rand_pos w)\<rparr>"
    define m where "m = \<lparr>bm_MessageID = UUID_String (rand w (rand_pos w)),
                      bm_MessageType = mt,
                      bm_MessageCreatedAt = time_Now w2,
                      bm_SentBy = nodeName s @ ''-'' @ nodeUUID s,
                      bm_MessageBody = b,
                      bm_MessageAck = a\<rparr>"
    have w2: "trace w2 = trace w" "tasks w2 = tasks w" "next_id w2 = next_id w"
      by (simp_all add: w2_def)
    have mb: "bm_MessageBody m = b" and mid: "bm_MessageID m \<noteq> ''''"
      by (simp_all add: m_def UUID_String_nonempty)
    show ?thesis
    proof (cases "M (BaseMessage_fields m)")
      case (Inl e)
      have "SendMessage_body M mt b a s0 w =
              (Returned ('''', Some (''failed to marshal message: '' @ e)), s0, w2)"
        using live s0 Inl
        by (simp add: SendMessage_body_def uuid_New_def Let_def m_def w2_def time_Now_def)
      with body unlock have "out = Returned ('''', Some (''failed to marshal message: '' @ e))"
        "s' = s" "w' = w2" by auto
      with free live mb Inl show ?thesis
        by (intro marshal [of m e]) (simp_all add: added_def w2)
    next
      case (Inr bytes)
      define task where "task = \<lparr>ID = 0, UUID = 0,
                   MessageID = bm_MessageID m,
                   MessageType = mt,
                   QueueName = queueName s,
                   Status = MessageStatusPending,
                   RetryCount = 0, NextRetryTime = None, Error = '''',
                   Payload = bytes,
                   Result = '''',
                   SentBy = bm_SentBy m,
                   AckedAt = None\<rparr>"
      obtain cerr t w3 where cr: "CreateTask task w2 = ((cerr, t), w3)"
        by (cases "CreateTask task w2") auto
      note f = CreateTask_frame [OF cr]
      have tfacts: "Status t = MessageStatusPending" "Payload t = bytes"
        "MessageID t = bm_MessageID m" "Error t = ''''"
        using f by (simp_all add: task_def)
      have tr3: "trace w3 = trace w @ [RepoCreateTask t cerr]"
        using f w2 by simp
      have step: "SendMessage_body M mt b a s0 w =
          (case cerr of
             Some e \<Rightarrow> (Returned ('''', Some (''failed to create task record: '' @ e)), s0, w3)
           | None \<Rightarrow> SendMessage_publish s0 w3 t (bm_MessageID m) bytes)"
        using live s0 Inr cr
        by (simp add: SendMessage_body_def uuid_New_def Let_def w2_def m_def task_def
            time_Now_def split: option.splits)
      show ?thesis
      proof (cases cerr)
        case (Some e)
        with step body unlock
        have "out = Returned ('''', Some (''failed to create task record: '' @ e))"
          "s' = s" "w' = w3" by auto
        with free live mb Inr Some f tr3 w2 show ?thesis
          by (intro create [of m bytes e t]) (simp_all add: added_append)
      next
        case None
        have tk3: "tasks w3 = tasks w @ [t]" and idt: "ID t = next_id w"
          using f None w2 by (simp_all add: task_def)
        from step None body
        have pub: "SendMessage_publish s0 w3 t (bm_MessageID m) bytes = (out0, s1, w1)"
          by simp
        from pub show ?thesis
        proof (cases rule: SendMessage_publish_cases)
          case nil_channel
          with unlock have "out = out0" "s' = s" "w' = w3" by auto
          with nil_channel free live mb Inr None tfacts tr3 tk3 s0 show ?thesis
            by (intro that(5) [of m bytes t]) (simp_all add: added_append)
        next
          case (published p r t' ue)
          have "out0 \<noteq> Blocked" using published(4) by (simp split: option.splits)
          with unlock published(5) have o: "out = out0" "s' = s" "w' = w1" by auto
          have tr: "trace w' = trace w @ RepoCreateTask t None #
              AmqpPublish (exchangeName s) (queueName s) p r # RepoUpdateTask t' ue #
              (case ue of None \<Rightarrow> []
               | Some x \<Rightarrow> [LogError (case r of None \<Rightarrow> ''Failed to update task status to delivered''
                                   | Some e \<Rightarrow> ''Failed to update task status'') x]) @
              (case r of None \<Rightarrow> [LogInfo ''Message sent successfully''] | Some e \<Rightarrow> [])"
            using published(6) tr3 None o s0 by simp
          show ?thesis
          proof (rule that(6) [of m bytes t p r t' ue])
            show "\<not> mu s" by (rule free)
            show "\<not> (case conn s of None \<Rightarrow> True | Some c \<Rightarrow> IsClosed c)" by (rule live)
            show "bm_MessageBody m = b" by (rule mb)
            show "M (BaseMessage_fields m) = Inr bytes" by (rule Inr)
            show "channel s \<noteq> None" using published(1) s0 by simp
            show "Status t = MessageStatusPending" "Payload t = bytes"
              "MessageID t = bm_MessageID m" "Error t = ''''" by (rule tfacts)+
            show "ID t = next_id w" by (rule idt)
            show "bm_MessageID m \<noteq> ''''" by (rule mid)
            show "MessageId p = bm_MessageID m" "Body p = bytes" by (rule published)+
            show "out = (case r of None \<Rightarrow> Returned (bm_MessageID m, None)
              | Some e \<Rightarrow> Returned ('''', Some (''failed to publish message: '' @ e)))"
              using o published(4) by simp
            show "s' = s" by (rule o)
            show "added w w' = RepoCreateTask t None # AmqpPublish (exchangeName s) (queueName s) p r #
               RepoUpdateTask t' ue #
               (case ue of None \<Rightarrow> []
                | Some x \<Rightarrow> [LogError (case r of None \<Rightarrow> ''Failed to update task status to delivered''
                                   | Some e \<Rightarrow> ''Failed to update task status'') x]) @
               (case r of None \<Rightarrow> [LogInfo ''Message sent successfully''] | Some e \<Rightarrow> [])"
              by (rule added_append [OF tr])
            show "Status t' = (case r of None \<Rightarrow> MessageStatusDelivered | Some e \<Rightarrow> MessageStatusFailed)"
              by (rule published)
            show "Error t' = (case r of None \<Rightarrow> '''' | Some e \<Rightarrow> e)"
              using published(8) tfacts by (simp split: option.splits)
            show "MessageID t' = bm_MessageID m" "Payload t' = bytes"
              using published(9,10) tfacts by simp_all
            show "ue \<noteq> None \<Longrightarrow> tasks w' = tasks w @ [t]"
              using published(11) tk3 o by simp
            show "ue = None \<Longrightarrow> t' \<in> set (tasks w')"
              using published(12) o by simp
            show "ue = None \<Longrightarrow> next_id w = 0 \<Longrightarrow> tasks w' = tasks w @ [t, t']"
              using published(13) tk3 idt o by simp
            show "ue = None \<Longrightarrow> next_id w \<noteq> 0 \<Longrightarrow>
               tasks w' = map (\<lambda>r. if ID r = next_id w then t' else r) (tasks w) @ [t']"
              using published(14) tk3 idt o by simp
          qed
        qed
      qed
    qed
  qed
qed

lemma filter_nil_message_id:
  "mid \<notin> MessageID ` set rows \<Longrightarrow> filter (\<lambda>r. MessageID r = mid) rows = []"
  by (auto simp: filter_empty_conv)

lemma first_match_in:
  assumes "filter (\<lambda>r. MessageID r = mid) rows = x # xs"
  shows "arg_min_list ID (x # xs) \<in> set rows \<and> MessageID (arg_min_list ID (x # xs)) = mid"
proof -
  have "arg_min_list ID (x # xs) \<in> set (x # xs)"
    by (rule arg_min_list_in) simp
  then have "arg_min_list ID (x # xs) \<in> set (filter (\<lambda>r. MessageID r = mid) rows)"
    using assms by simp
  then show ?thesis by simp
qed

lemma GetTaskByMessageID_frame:
  "GetTaskByMessageID mid w = (r, w1) \<Longrightarrow>
     trace w1 = trace w @ [RepoGetTaskByMessageID mid] \<and> tasks w1 = tasks w \<and>
     next_id w1 = next_id w \<and> clock w1 = clock w \<and> amqp_faults w1 = amqp_faults w \<and>
     (\<forall>t. r = Inr t \<longrightarrow> t \<in> set (tasks w) \<and> MessageID t = mid) \<and>
     (mid \<notin> MessageID ` set (tasks w) \<longrightarrow> isl r) \<and>
     (mid \<notin> MessageID ` set (tasks w) \<longrightarrow> fst (db_fault w) = None \<longrightarrow>
        r = Inl (''task not found with message ID: '' @ mid))"
  by (auto simp: GetTaskByMessageID_def db_First_message_id_def db_fault_def emit_def Let_def
      filter_nil_message_id
      split: list.splits option.splits prod.splits sum.splits db_error.splits
      dest: first_match_in)

section \<open>The claims\<close>

text \<open>
  C10. A call of the package-level \<^verbatim>\<open>SendMessage\<close> or \<^verbatim>\<open>AckMessage\<close> made while the
  global \<^verbatim>\<open>mqService\<close> is nil returns the error "RabbitMQ service not initialized",
  \<^verbatim>\<open>SendMessage\<close> with the empty message identity, and leaves the world as it was: no
  call on the repository, none on the broker.
\<close>

theorem C10_service_not_initialized:
  "SendMessage json_Marshal None w messageType body needsAck =
     (Returned ('''', Some ''RabbitMQ service not initialized''), None, w) \<and>
   AckMessage json_Marshal None w messageID result =
     (Some ''RabbitMQ service not initialized'', w)"
  by (simp add: SendMessage_def AckMessage_def)

end
